theory Spec2Isabelle
  imports Complex_Main "HOL-Library.AList" "HOL-Library.Sublist" "HOL-Library.Product_Lexorder"
begin

section \<open>JSON values and Python dictionaries\<close>

text \<open>
  The scrapers work on the values that \<^verbatim>\<open>response.json()\<close> returns: \<^verbatim>\<open>None\<close>, booleans,
  integers, floats, strings, lists and dictionaries with string keys. A dictionary is an
  association list in insertion order; a dictionary built by Python has pairwise distinct
  keys. Strings are lists of characters.
\<close>

datatype json =
    JNull
  | JBool bool
  | JInt int
  | JFloat real
  | JStr string
  | JList "json list"
  | JDict "(string \<times> json) list"

type_synonym pydict = "(string \<times> json) list"

datatype error = AttributeError | ParserError | TypeError

fun isinstance_dict :: "json \<Rightarrow> bool" where
  "isinstance_dict (JDict m) = True"
| "isinstance_dict _ = False"

fun isinstance_list :: "json \<Rightarrow> bool" where
  "isinstance_list (JList xs) = True"
| "isinstance_list _ = False"

text \<open>A value that is neither a list nor a dictionary.\<close>

fun is_scalar :: "json \<Rightarrow> bool" where
  "is_scalar (JList xs) = False"
| "is_scalar (JDict m) = False"
| "is_scalar _ = True"

text \<open>\<^verbatim>\<open>d[k] = v\<close>: an existing key keeps its position, a new key goes to the end.\<close>

definition dict_set :: "string \<Rightarrow> json \<Rightarrow> pydict \<Rightarrow> pydict" where
  "dict_set k v d = AList.update k v d"

text \<open>\<^verbatim>\<open>dict(items)\<close>: the pairs are stored from left to right, a later one overwriting.\<close>

definition dict_of_items :: "(string \<times> json) list \<Rightarrow> pydict" where
  "dict_of_items its = foldl (\<lambda>d (k, v). dict_set k v d) [] its"

text \<open>The decimal digits of a non-negative integer, as an f-string prints an index.\<close>

fun str_nat :: "nat \<Rightarrow> string" where
  "str_nat n = (if n < 10 then [char_of (48 + n)] else str_nat (n div 10) @ [char_of (48 + n mod 10)])"

declare str_nat.simps [simp del]

text \<open>Reading a decimal numeral: the value of a string of digits, \<open>None\<close> for any other string.\<close>

definition digit_of :: "char \<Rightarrow> nat option" where
  "digit_of c = (let n = (of_char c :: nat) in if 48 \<le> n \<and> n \<le> 57 then Some (n - 48) else None)"

fun number_of :: "string \<Rightarrow> nat \<Rightarrow> nat option" where
  "number_of [] acc = Some acc"
| "number_of (c # s) acc =
     (case digit_of c of None \<Rightarrow> None | Some d \<Rightarrow> number_of s (10 * acc + d))"

section \<open>The response classifier\<close>

text \<open>
  What the handlers read of a browser response: its URL, its status, its headers and the
  outcome of \<^verbatim>\<open>response.json()\<close>, which is \<open>None\<close> when the call raises.
\<close>

record response =
  resp_url :: string
  resp_status :: int
  resp_headers :: "(string \<times> string) list"
  resp_json :: "json option"

text \<open>\<^verbatim>\<open>s.lower()\<close> on the letters A to Z; \<^verbatim>\<open>sub in s\<close>; \<^verbatim>\<open>headers.get(k, dflt)\<close>.\<close>

definition lower_char :: "char \<Rightarrow> char" where
  "lower_char c = (let n = (of_char c :: nat) in if 65 \<le> n \<and> n \<le> 90 then char_of (n + 32) else c)"

definition lower :: "string \<Rightarrow> string" where
  "lower s = map lower_char s"

fun str_in :: "string \<Rightarrow> string \<Rightarrow> bool" where
  "str_in sub [] = (sub = [])"
| "str_in sub (c # s) = (prefix sub (c # s) \<or> str_in sub s)"

definition headers_get :: "(string \<times> string) list \<Rightarrow> string \<Rightarrow> string \<Rightarrow> string" where
  "headers_get hs k dflt = (case map_of hs k of Some v \<Rightarrow> v | None \<Rightarrow> dflt)"

text \<open>
  The entries that the handlers append: the simple scraper keeps the URL and the parsed
  body, the scorecard scraper the status and the headers as well.
\<close>

record capture =
  url :: string
  data :: json

record sc_capture = capture +
  status :: int
  headers :: "(string \<times> string) list"

text \<open>
  \<^verbatim>\<open>handle_response\<close> of \<^verbatim>\<open>umpire_scorecard_scraper.py\<close>; the list \<^verbatim>\<open>responses\<close> it appends to
  is passed and returned. An exception of \<^verbatim>\<open>response.json()\<close> is caught and logged.
\<close>

definition handle_response_sc :: "response \<Rightarrow> sc_capture list \<Rightarrow> sc_capture list" where
  "handle_response_sc response responses =
     (if list_ex (\<lambda>keyword. str_in keyword (lower (resp_url response))) [''api'', ''data'', ''json'']
         \<and> resp_status response = 200
      then (let content_type = lower (headers_get (resp_headers response) ''content-type'' [])
            in if str_in ''json'' content_type
               then (case resp_json response of
                       Some json_data \<Rightarrow>
                         responses @ [\<lparr>url = resp_url response, data = json_data,
                                       status = resp_status response,
                                       headers = resp_headers response\<rparr>]
                     | None \<Rightarrow> responses)
               else responses)
      else responses)"

text \<open>\<^verbatim>\<open>handle_response\<close> of \<^verbatim>\<open>simple_umpire_scraper.py\<close>.\<close>

definition handle_response_simple :: "response \<Rightarrow> capture list \<Rightarrow> capture list" where
  "handle_response_simple response responses_data =
     (if str_in ''json'' (lower (headers_get (resp_headers response) ''content-type'' []))
      then (case resp_json response of
              Some json_data \<Rightarrow> responses_data @ [\<lparr>url = resp_url response, data = json_data\<rparr>]
            | None \<Rightarrow> responses_data)
      else responses_data)"

text \<open>Three responses for the examples: a 404 with a JSON body, an HTML page and a JSON answer.\<close>

definition not_found_response :: response where
  "not_found_response =
     \<lparr>resp_url = ''https://umpscorecards.com/api/umpires'', resp_status = 404,
      resp_headers = [(''content-type'', ''application/json'')],
      resp_json = Some (JDict [(''error'', JStr ''not found'')])\<rparr>"

definition html_response :: response where
  "html_response =
     \<lparr>resp_url = ''https://umpscorecards.com/api/umpires'', resp_status = 200,
      resp_headers = [(''content-type'', ''text/html'')],
      resp_json = None\<rparr>"

definition json_response :: response where
  "json_response =
     \<lparr>resp_url = ''https://umpscorecards.com/API/umpires'', resp_status = 200,
      resp_headers = [(''content-type'', ''Application/JSON; charset=utf-8'')],
      resp_json = Some (JList [])\<rparr>"

section \<open>The record extractor\<close>

text \<open>
  The loops of \<^verbatim>\<open>get_umpire_data_async\<close> (scorecard scraper) and \<^verbatim>\<open>scrape_umpire_page\<close>
  (simple scraper) over the captured responses. Both store the provenance fields in the
  dictionaries of the captured body itself and append these dictionaries to
  \<^verbatim>\<open>collected_data\<close>, so the model returns the updated body along with the list. Each
  \<^verbatim>\<open>datetime.now().isoformat()\<close> is one reading of a clock: \<open>clock t\<close> is the reading number
  \<open>t\<close>, and the number of readings taken so far is part of the state.

  \<open>tag_sc\<close> and \<open>tag_simple\<close> are the assignments to one dictionary, \<open>process_items\<close> the
  loop \<^verbatim>\<open>for item in response['data']\<close>, \<open>process_data\<close> the branch on the type of the body.
\<close>

definition tag_sc :: "string \<Rightarrow> string \<Rightarrow> string \<Rightarrow> pydict \<Rightarrow> pydict" where
  "tag_sc umpire_name source now item =
     dict_set ''source_url'' (JStr source)
       (dict_set ''scraped_at'' (JStr now)
         (dict_set ''umpire_name'' (JStr umpire_name) item))"

definition tag_simple :: "string \<Rightarrow> string \<Rightarrow> pydict \<Rightarrow> pydict" where
  "tag_simple umpire_name now item =
     dict_set ''scraped_timestamp'' (JStr now)
       (dict_set ''umpire_name'' (JStr umpire_name) item)"

fun process_items ::
  "(string \<Rightarrow> pydict \<Rightarrow> pydict) \<Rightarrow> (nat \<Rightarrow> string) \<Rightarrow> json list \<Rightarrow> nat \<times> pydict list \<Rightarrow>
     json list \<times> nat \<times> pydict list"
where
  "process_items tag clock [] (t, collected_data) = ([], t, collected_data)"
| "process_items tag clock (item # rest) (t, collected_data) =
     (case item of
        JDict m \<Rightarrow>
          (let m' = tag (clock t) m;
               (rest', st) = process_items tag clock rest (Suc t, collected_data @ [m'])
           in (JDict m' # rest', st))
      | _ \<Rightarrow>
          (let (rest', st) = process_items tag clock rest (t, collected_data)
           in (item # rest', st)))"

definition process_data ::
  "(string \<Rightarrow> pydict \<Rightarrow> pydict) \<Rightarrow> (nat \<Rightarrow> string) \<Rightarrow> json \<Rightarrow> nat \<times> pydict list \<Rightarrow>
     json \<times> nat \<times> pydict list"
where
  "process_data tag clock d st =
     (case d of
        JList xs \<Rightarrow> (let (xs', st') = process_items tag clock xs st in (JList xs', st'))
      | JDict m \<Rightarrow>
          (let m' = tag (clock (fst st)) m in (JDict m', Suc (fst st), snd st @ [m']))
      | _ \<Rightarrow> (d, st))"

definition process_response_sc ::
  "string \<Rightarrow> (nat \<Rightarrow> string) \<Rightarrow> sc_capture \<Rightarrow> nat \<times> pydict list \<Rightarrow> sc_capture \<times> nat \<times> pydict list"
where
  "process_response_sc umpire_name clock response st =
     (let (d, st') = process_data (tag_sc umpire_name (url response)) clock (data response) st
      in (response\<lparr>data := d\<rparr>, st'))"

definition process_response_simple ::
  "string \<Rightarrow> (nat \<Rightarrow> string) \<Rightarrow> capture \<Rightarrow> nat \<times> pydict list \<Rightarrow> capture \<times> nat \<times> pydict list"
where
  "process_response_simple umpire_name clock response st =
     (let (d, st') = process_data (tag_simple umpire_name) clock (data response) st
      in (response\<lparr>data := d\<rparr>, st'))"

text \<open>The loop \<^verbatim>\<open>for response in responses\<close> of either scraper.\<close>

fun process_responses_sc ::
  "string \<Rightarrow> (nat \<Rightarrow> string) \<Rightarrow> sc_capture list \<Rightarrow> nat \<times> pydict list \<Rightarrow>
     sc_capture list \<times> nat \<times> pydict list"
where
  "process_responses_sc umpire_name clock [] st = ([], st)"
| "process_responses_sc umpire_name clock (response # rest) st =
     (let (response', st') = process_response_sc umpire_name clock response st;
          (rest', st'') = process_responses_sc umpire_name clock rest st'
      in (response' # rest', st''))"

fun process_responses_simple ::
  "string \<Rightarrow> (nat \<Rightarrow> string) \<Rightarrow> capture list \<Rightarrow> nat \<times> pydict list \<Rightarrow>
     capture list \<times> nat \<times> pydict list"
where
  "process_responses_simple umpire_name clock [] st = ([], st)"
| "process_responses_simple umpire_name clock (response # rest) st =
     (let (response', st') = process_response_simple umpire_name clock response st;
          (rest', st'') = process_responses_simple umpire_name clock rest st'
      in (response' # rest', st''))"

subsection \<open>What the specification says of the extractor\<close>

text \<open>
  \<open>mappings_of\<close> lists the mappings a body gives records for: the mapping elements of a
  sequence in their order, a mapping body itself, nothing otherwise. \<open>in_place_update\<close>
  relates a body before and after extraction and the records returned: the mappings are
  tagged where they stand, everything else is unchanged, and the records are the tagged
  mappings.
\<close>

fun dict_elements :: "json list \<Rightarrow> pydict list" where
  "dict_elements [] = []"
| "dict_elements (JDict m # rest) = m # dict_elements rest"
| "dict_elements (x # rest) = dict_elements rest"

fun mappings_of :: "json \<Rightarrow> pydict list" where
  "mappings_of (JList xs) = dict_elements xs"
| "mappings_of (JDict m) = [m]"
| "mappings_of v = []"

definition in_place_update :: "(string \<Rightarrow> pydict \<Rightarrow> pydict) \<Rightarrow> json \<Rightarrow> json \<Rightarrow> pydict list \<Rightarrow> bool" where
  "in_place_update tag before after records =
     (case before of
        JList xs \<Rightarrow>
          (\<exists>xs'. after = JList xs' \<and> records = dict_elements xs' \<and>
             list_all2 (\<lambda>x x'. if isinstance_dict x
                                then (\<exists>m now. x = JDict m \<and> x' = JDict (tag now m))
                                else x' = x) xs xs')
      | JDict m \<Rightarrow> (\<exists>now. after = JDict (tag now m) \<and> records = [tag now m])
      | _ \<Rightarrow> after = before \<and> records = [])"

text \<open>A captured response, a clock and the records they give, for the examples.\<close>

definition example_capture :: sc_capture where
  "example_capture =
     \<lparr>url = ''https://umpscorecards.com/api/umpire'',
      data = JList [JDict [(''id'', JInt 1)], JDict [(''id'', JInt 2)], JStr ''not-a-map''],
      status = 200, headers = [(''content-type'', ''application/json'')]\<rparr>"

definition example_clock :: "nat \<Rightarrow> string" where
  "example_clock n = (if n = 0 then ''2025-09-01T12:00:00.000417'' else ''2025-09-01T12:00:00.000421'')"

definition example_tagged :: "pydict list" where
  "example_tagged =
     [[(''id'', JInt 1), (''umpire_name'', JStr ''Pat Hoberg''),
       (''scraped_at'', JStr ''2025-09-01T12:00:00.000417''),
       (''source_url'', JStr ''https://umpscorecards.com/api/umpire'')],
      [(''id'', JInt 2), (''umpire_name'', JStr ''Pat Hoberg''),
       (''scraped_at'', JStr ''2025-09-01T12:00:00.000421''),
       (''source_url'', JStr ''https://umpscorecards.com/api/umpire'')]]"

section \<open>The date filter\<close>

text \<open>
  A \<^verbatim>\<open>datetime\<close> is its fields: year, month, day, hour, minute, second and microsecond,
  compared from left to right. A datetime is naive, or aware of its time zone; an aware
  one is held as its instant in UTC. Python orders two naive or two aware datetimes and
  raises \<^verbatim>\<open>TypeError\<close> when asked to order a naive and an aware one.
\<close>

type_synonym civil = "nat \<times> nat \<times> nat \<times> nat \<times> nat \<times> nat \<times> nat"

datatype datetime = Naive civil | Aware civil

fun dt_le :: "datetime \<Rightarrow> datetime \<Rightarrow> error + bool" where
  "dt_le (Naive a) (Naive b) = Inr (a \<le> b)"
| "dt_le (Aware a) (Aware b) = Inr (a \<le> b)"
| "dt_le _ _ = Inl TypeError"

definition civil_min :: civil where
  "civil_min = (1, 1, 1, 0, 0, 0, 0)"

definition civil_max :: civil where
  "civil_max = (9999, 12, 31, 23, 59, 59, 999999)"

text \<open>The truth value of an optional string argument and of a JSON value.\<close>

fun opt_truthy :: "string option \<Rightarrow> bool" where
  "opt_truthy None = False"
| "opt_truthy (Some s) = (s \<noteq> [])"

fun truthy :: "json \<Rightarrow> bool" where
  "truthy JNull = False"
| "truthy (JBool b) = b"
| "truthy (JInt n) = (n \<noteq> 0)"
| "truthy (JFloat x) = (x \<noteq> 0)"
| "truthy (JStr s) = (s \<noteq> [])"
| "truthy (JList xs) = (xs \<noteq> [])"
| "truthy (JDict m) = (m \<noteq> [])"

subsection \<open>The scorecard scraper\<close>

text \<open>
  \<^verbatim>\<open>filter_by_date_range\<close> of \<^verbatim>\<open>umpire_scorecard_scraper.py\<close>. The library parser
  \<^verbatim>\<open>dateutil.parser.parse\<close> is the parameter \<open>parse\<close>, \<open>None\<close> where it raises; it can
  return a naive or an aware datetime. The bounds are parsed outside any \<^verbatim>\<open>try\<close>, so a
  bound that does not parse ends the call with the parser's exception. The two
  comparisons \<^verbatim>\<open>start_dt <= item_date <= end_dt\<close> are outside the \<^verbatim>\<open>try\<close> as well; the
  second is evaluated only when the first holds.
\<close>

definition date_fields_sc :: "string list" where
  "date_fields_sc = [''date'', ''game_date'', ''Date'', ''gameDate'', ''created_at'', ''timestamp'']"

fun find_item_date_sc ::
  "(string \<Rightarrow> datetime option) \<Rightarrow> (json \<Rightarrow> string) \<Rightarrow> pydict \<Rightarrow> string list \<Rightarrow> datetime option"
where
  "find_item_date_sc parse py_str item [] = None"
| "find_item_date_sc parse py_str item (field # other_fields) =
     (case map_of item field of
        None \<Rightarrow> find_item_date_sc parse py_str item other_fields
      | Some v \<Rightarrow>
          (case parse (py_str v) of
             Some item_date \<Rightarrow> Some item_date
           | None \<Rightarrow> find_item_date_sc parse py_str item other_fields))"

fun filter_loop_sc ::
  "(string \<Rightarrow> datetime option) \<Rightarrow> (json \<Rightarrow> string) \<Rightarrow> datetime \<Rightarrow> datetime \<Rightarrow>
     pydict list \<Rightarrow> pydict list \<Rightarrow> error + pydict list"
where
  "filter_loop_sc parse py_str start_dt end_dt [] filtered_data = Inr filtered_data"
| "filter_loop_sc parse py_str start_dt end_dt (item # rest) filtered_data =
     (case find_item_date_sc parse py_str item date_fields_sc of
        None \<Rightarrow> filter_loop_sc parse py_str start_dt end_dt rest filtered_data
      | Some item_date \<Rightarrow>
          (case dt_le start_dt item_date of
             Inl e \<Rightarrow> Inl e
           | Inr after_start \<Rightarrow>
               if after_start
               then (case dt_le item_date end_dt of
                       Inl e \<Rightarrow> Inl e
                     | Inr before_end \<Rightarrow>
                         filter_loop_sc parse py_str start_dt end_dt rest
                           (if before_end then filtered_data @ [item] else filtered_data))
               else filter_loop_sc parse py_str start_dt end_dt rest filtered_data))"

text \<open>\<^verbatim>\<open>parse(bound) if bound else default\<close>.\<close>

definition parse_bound_sc ::
  "(string \<Rightarrow> datetime option) \<Rightarrow> string option \<Rightarrow> datetime \<Rightarrow> datetime option"
where
  "parse_bound_sc parse bound dflt =
     (case bound of
        Some s \<Rightarrow> if s \<noteq> [] then parse s else Some dflt
      | None \<Rightarrow> Some dflt)"

definition filter_by_date_range_sc ::
  "(string \<Rightarrow> datetime option) \<Rightarrow> (json \<Rightarrow> string) \<Rightarrow> pydict list \<Rightarrow>
     string option \<Rightarrow> string option \<Rightarrow> error + pydict list"
where
  "filter_by_date_range_sc parse py_str data_list start_date end_date =
     (if \<not> (opt_truthy start_date \<or> opt_truthy end_date) then Inr data_list
      else
        (case parse_bound_sc parse start_date (Naive civil_min) of
           None \<Rightarrow> Inl ParserError
         | Some start_dt \<Rightarrow>
             (case parse_bound_sc parse end_date (Naive civil_max) of
                None \<Rightarrow> Inl ParserError
              | Some end_dt \<Rightarrow> filter_loop_sc parse py_str start_dt end_dt data_list [])))"

subsection \<open>The simple scraper\<close>

text \<open>
  \<^verbatim>\<open>filter_by_date_range\<close> of \<^verbatim>\<open>simple_umpire_scraper.py\<close>. \<^verbatim>\<open>datetime.strptime\<close> is the
  parameter \<open>strptime\<close>, taking the text and the format, \<open>None\<close> where it raises
  \<^verbatim>\<open>ValueError\<close>; none of the formats used names a time zone, so its results are naive.
  The bounds are parsed inside a \<^verbatim>\<open>try\<close> whose handler logs the error and returns the
  input list.
\<close>

definition date_fields_simple :: "string list" where
  "date_fields_simple = [''date'', ''game_date'', ''Date'', ''gameDate'', ''Game Date'']"

definition date_formats :: "string list" where
  "date_formats = [''%Y-%m-%d'', ''%m/%d/%Y'', ''%d/%m/%Y'', ''%Y-%m-%d %H:%M:%S'']"

fun try_formats :: "(string \<Rightarrow> string \<Rightarrow> civil option) \<Rightarrow> string \<Rightarrow> string list \<Rightarrow> civil option" where
  "try_formats strptime date_str [] = None"
| "try_formats strptime date_str (fmt # fmts) =
     (case strptime (take 10 date_str) fmt of
        Some item_date \<Rightarrow> Some item_date
      | None \<Rightarrow> try_formats strptime date_str fmts)"

fun find_item_date_simple ::
  "(string \<Rightarrow> string \<Rightarrow> civil option) \<Rightarrow> (json \<Rightarrow> string) \<Rightarrow> pydict \<Rightarrow> string list \<Rightarrow> civil option"
where
  "find_item_date_simple strptime py_str item [] = None"
| "find_item_date_simple strptime py_str item (field # other_fields) =
     (case map_of item field of
        None \<Rightarrow> find_item_date_simple strptime py_str item other_fields
      | Some v \<Rightarrow>
          if truthy v
          then (case try_formats strptime (py_str v) date_formats of
                  Some item_date \<Rightarrow> Some item_date
                | None \<Rightarrow> find_item_date_simple strptime py_str item other_fields)
          else find_item_date_simple strptime py_str item other_fields)"

function filter_loop_simple ::
  "(string \<Rightarrow> string \<Rightarrow> civil option) \<Rightarrow> (json \<Rightarrow> string) \<Rightarrow> civil \<Rightarrow> civil \<Rightarrow>
     pydict list \<Rightarrow> pydict list \<Rightarrow> pydict list"
where
  "filter_loop_simple strptime py_str start_dt end_dt [] filtered_data = filtered_data"
| "filter_loop_simple strptime py_str start_dt end_dt (item # rest) filtered_data =
     (case find_item_date_simple strptime py_str item date_fields_simple of
        None \<Rightarrow> filter_loop_simple strptime py_str start_dt end_dt rest filtered_data
      | Some item_date \<Rightarrow>
          filter_loop_simple strptime py_str start_dt end_dt rest
            (if start_dt \<le> item_date \<and> item_date \<le> end_dt
             then filtered_data @ [item] else filtered_data))"
  by pat_completeness auto
termination
  by (relation "measure (\<lambda>(strptime, py_str, start_dt, end_dt, items, filtered_data). length items)")
     auto

definition parse_bound_simple ::
  "(string \<Rightarrow> string \<Rightarrow> civil option) \<Rightarrow> string option \<Rightarrow> civil \<Rightarrow> civil option"
where
  "parse_bound_simple strptime bound dflt =
     (case bound of
        Some s \<Rightarrow> if s \<noteq> [] then strptime s ''%Y-%m-%d'' else Some dflt
      | None \<Rightarrow> Some dflt)"

definition filter_by_date_range_simple ::
  "(string \<Rightarrow> string \<Rightarrow> civil option) \<Rightarrow> (json \<Rightarrow> string) \<Rightarrow> pydict list \<Rightarrow>
     string option \<Rightarrow> string option \<Rightarrow> pydict list"
where
  "filter_by_date_range_simple strptime py_str data_list start_date end_date =
     (if \<not> (opt_truthy start_date \<or> opt_truthy end_date) then data_list
      else
        (case parse_bound_simple strptime start_date civil_min of
           None \<Rightarrow> data_list
         | Some start_dt \<Rightarrow>
             (case parse_bound_simple strptime end_date civil_max of
                None \<Rightarrow> data_list
              | Some end_dt \<Rightarrow> filter_loop_simple strptime py_str start_dt end_dt data_list [])))"

subsection \<open>The date a record resolves to\<close>

text \<open>
  The resolution as the specification words it: of the candidate field names, in their
  fixed order, the first that is present in the record and whose value parses gives the
  date; a record with no such field has none.
\<close>

definition resolved_date :: "(json \<Rightarrow> 'd option) \<Rightarrow> string list \<Rightarrow> pydict \<Rightarrow> 'd option" where
  "resolved_date parse_value candidates item =
     (case filter (\<lambda>field. Option.bind (map_of item field) parse_value \<noteq> None) candidates of
        [] \<Rightarrow> None
      | field # _ \<Rightarrow> Option.bind (map_of item field) parse_value)"

text \<open>What a field value parses to in each scraper.\<close>

definition value_date_sc :: "(string \<Rightarrow> datetime option) \<Rightarrow> (json \<Rightarrow> string) \<Rightarrow> json \<Rightarrow> datetime option" where
  "value_date_sc parse py_str v = parse (py_str v)"

definition value_date_simple ::
  "(string \<Rightarrow> string \<Rightarrow> civil option) \<Rightarrow> (json \<Rightarrow> string) \<Rightarrow> json \<Rightarrow> civil option"
where
  "value_date_simple strptime py_str v =
     (if truthy v then try_formats strptime (py_str v) date_formats else None)"

subsection \<open>Parsers for the examples\<close>

text \<open>
  The theorems hold for every parser. To run the examples, \<open>iso_date\<close> reads a zero-padded
  calendar date \<^verbatim>\<open>YYYY-MM-DD\<close>; \<open>example_strptime\<close> reads it under the format \<^verbatim>\<open>%Y-%m-%d\<close>,
  and \<open>example_parse\<close> reads it as a naive datetime and the form
  \<^verbatim>\<open>YYYY-MM-DDThh:mm:ssZ\<close> as an aware one, as the libraries do on these texts.
  \<open>example_str\<close> is \<^verbatim>\<open>str\<close> on strings.
\<close>

definition days_in_month :: "nat \<Rightarrow> nat \<Rightarrow> nat" where
  "days_in_month y m =
     (if m = 2 then (if y mod 4 = 0 \<and> (y mod 100 \<noteq> 0 \<or> y mod 400 = 0) then 29 else 28)
      else if m = 4 \<or> m = 6 \<or> m = 9 \<or> m = 11 then 30 else 31)"

definition iso_date :: "string \<Rightarrow> (nat \<times> nat \<times> nat) option" where
  "iso_date s =
     (if length s = 10 \<and> s ! 4 = CHR ''-'' \<and> s ! 7 = CHR ''-''
      then (case (number_of (take 4 s) 0, number_of (take 2 (drop 5 s)) 0,
                  number_of (take 2 (drop 8 s)) 0) of
              (Some y, Some m, Some d) \<Rightarrow>
                if 1 \<le> y \<and> 1 \<le> m \<and> m \<le> 12 \<and> 1 \<le> d \<and> d \<le> days_in_month y m
                then Some (y, m, d) else None
            | _ \<Rightarrow> None)
      else None)"

definition iso_time :: "string \<Rightarrow> (nat \<times> nat \<times> nat) option" where
  "iso_time s =
     (if length s = 8 \<and> s ! 2 = CHR '':'' \<and> s ! 5 = CHR '':''
      then (case (number_of (take 2 s) 0, number_of (take 2 (drop 3 s)) 0,
                  number_of (take 2 (drop 6 s)) 0) of
              (Some h, Some mi, Some se) \<Rightarrow>
                if h \<le> 23 \<and> mi \<le> 59 \<and> se \<le> 59 then Some (h, mi, se) else None
            | _ \<Rightarrow> None)
      else None)"

definition example_strptime :: "string \<Rightarrow> string \<Rightarrow> civil option" where
  "example_strptime s fmt =
     (if fmt = ''%Y-%m-%d''
      then (case iso_date s of Some (y, m, d) \<Rightarrow> Some (y, m, d, 0, 0, 0, 0) | None \<Rightarrow> None)
      else None)"

definition example_parse :: "string \<Rightarrow> datetime option" where
  "example_parse s =
     (if length s = 10
      then (case iso_date s of Some (y, m, d) \<Rightarrow> Some (Naive (y, m, d, 0, 0, 0, 0)) | None \<Rightarrow> None)
      else if length s = 20 \<and> s ! 10 = CHR ''T'' \<and> s ! 19 = CHR ''Z''
      then (case (iso_date (take 10 s), iso_time (take 8 (drop 11 s))) of
              (Some (y, m, d), Some (h, mi, se)) \<Rightarrow> Some (Aware (y, m, d, h, mi, se, 0))
            | _ \<Rightarrow> None)
      else None)"

definition example_str :: "json \<Rightarrow> string" where
  "example_str v = (case v of JStr s \<Rightarrow> s | _ \<Rightarrow> [])"

text \<open>Four records for the examples: dated before the range, dated within it, undated, and
  stamped with a UTC time.\<close>

definition record_2023 :: pydict where
  "record_2023 = [(''id'', JInt 1), (''date'', JStr ''2023-12-31'')]"

definition record_2024 :: pydict where
  "record_2024 = [(''id'', JInt 2), (''date'', JStr ''2024-06-15'')]"

definition record_undated :: pydict where
  "record_undated = [(''id'', JInt 3), (''umpire'', JStr ''Pat Hoberg'')]"

definition record_utc :: pydict where
  "record_utc = [(''id'', JInt 4), (''timestamp'', JStr ''2024-06-15T12:00:00Z'')]"

section \<open>The flattener\<close>

text \<open>
  \<^verbatim>\<open>flatten_dict(d, parent_key='', sep='_')\<close> of \<^verbatim>\<open>umpire_scorecard_scraper.py\<close>.
  \<open>flatten_items\<close> is the loop \<^verbatim>\<open>for k, v in d.items()\<close> with the list \<^verbatim>\<open>items\<close> as
  accumulator, \<open>flatten_enum\<close> the loop \<^verbatim>\<open>for i, item in enumerate(v)\<close>. Calling the
  function on a value that is not a dictionary raises \<^verbatim>\<open>AttributeError\<close> at \<^verbatim>\<open>d.items()\<close>.
  The builtin \<^verbatim>\<open>str\<close> is the parameter \<open>py_str\<close>.
\<close>

function (sequential)
  flatten_dict :: "(json \<Rightarrow> string) \<Rightarrow> json \<Rightarrow> string \<Rightarrow> string \<Rightarrow> error + pydict"
and
  flatten_items :: "(json \<Rightarrow> string) \<Rightarrow> (string \<times> json) list \<Rightarrow> string \<Rightarrow> string \<Rightarrow>
                    (string \<times> json) list \<Rightarrow> error + (string \<times> json) list"
and
  flatten_enum :: "(json \<Rightarrow> string) \<Rightarrow> json list \<Rightarrow> nat \<Rightarrow> string \<Rightarrow> string \<Rightarrow>
                   (string \<times> json) list \<Rightarrow> error + (string \<times> json) list"
where
  "flatten_dict py_str (JDict m) parent_key sep =
     (case flatten_items py_str m parent_key sep [] of
        Inl e \<Rightarrow> Inl e
      | Inr items \<Rightarrow> Inr (dict_of_items items))"
| "flatten_dict py_str _ parent_key sep = Inl AttributeError"
| "flatten_items py_str [] parent_key sep items = Inr items"
| "flatten_items py_str ((k, v) # rest) parent_key sep items =
     (let new_key = (if parent_key \<noteq> [] then parent_key @ sep @ k else k) in
      case v of
        JDict m \<Rightarrow>
          (case flatten_dict py_str (JDict m) new_key sep of
             Inl e \<Rightarrow> Inl e
           | Inr r \<Rightarrow> flatten_items py_str rest parent_key sep (items @ r))
      | JList xs \<Rightarrow>
          (if xs \<noteq> [] \<and> isinstance_dict (hd xs)
           then (case flatten_enum py_str xs 0 new_key sep items of
                   Inl e \<Rightarrow> Inl e
                 | Inr items' \<Rightarrow> flatten_items py_str rest parent_key sep items')
           else flatten_items py_str rest parent_key sep
                  (items @ [(new_key, JStr (py_str (JList xs)))]))
      | _ \<Rightarrow> flatten_items py_str rest parent_key sep (items @ [(new_key, v)]))"
| "flatten_enum py_str [] i new_key sep items = Inr items"
| "flatten_enum py_str (item # others) i new_key sep items =
     (case flatten_dict py_str item (new_key @ ''_'' @ str_nat i) sep of
        Inl e \<Rightarrow> Inl e
      | Inr r \<Rightarrow> flatten_enum py_str others (Suc i) new_key sep (items @ r))"
  by pat_completeness auto
termination
  apply (relation "measure (\<lambda>x. case x of
      Inl (_, d, _, _) \<Rightarrow> 2 * size d
    | Inr (Inl (_, m, _, _, _)) \<Rightarrow> 2 * size_list (size_prod (\<lambda>_. 0) size) m + 1
    | Inr (Inr (_, xs, _, _, _, _)) \<Rightarrow> 2 * size_list size xs + 1)")
  apply auto
  done

subsection \<open>The rule of the specification\<close>


definition store_all :: "(string \<times> json) list \<Rightarrow> (string \<rightharpoonup> json)" where
  "store_all its = foldl (\<lambda>m (k, v). m(k \<mapsto> v)) Map.empty its"




section \<open>Properties of the flattener\<close>

subsection \<open>Stores and dictionaries\<close>

lemma foldl_store: "foldl (\<lambda>m (k, v). m(k \<mapsto> v)) m0 its = m0 ++ map_of (rev its)"
  by (induction its arbitrary: m0) (auto simp: map_add_upd_left)

lemma store_all_rev: "store_all its = map_of (rev its)"
  by (simp add: store_all_def foldl_store)

lemma store_all_append: "store_all (a @ b) = store_all a ++ store_all b"
  by (simp add: store_all_rev)







lemma store_all_Cons: "store_all (x # xs) = store_all [x] ++ store_all xs"
  using store_all_append [of "[x]" xs] by simp




subsection \<open>The code follows the rule\<close>


subsection \<open>The text of an index\<close>




subsection \<open>Only scalars are stored\<close>

lemma set_dict_set: "set (dict_set k v d) \<subseteq> insert (k, v) (set d)"
  unfolding dict_set_def by (induction d) auto

lemma set_foldl_dict_set:
  "set (foldl (\<lambda>d (k, v). dict_set k v d) d0 its) \<subseteq> set d0 \<union> set its"
proof (induction its arbitrary: d0)
  case Nil
  show ?case by simp
next
  case (Cons a its)
  obtain k v where a: "a = (k, v)" by (cases a)
  from Cons [of "dict_set k v d0"] set_dict_set [of k v d0] show ?case
    unfolding a by auto
qed

lemma set_dict_of_items: "set (dict_of_items its) \<subseteq> set its"
  using set_foldl_dict_set [of "[]" its] by (simp add: dict_of_items_def)

lemma list_all_dict_of_items:
  "list_all P its \<Longrightarrow> list_all P (dict_of_items its)"
  using set_dict_of_items [of its] by (auto simp: list_all_iff)

lemma flatten_values_scalar:
  "flatten_dict py_str d parent_key sep = Inr r \<Longrightarrow> list_all (\<lambda>kv. is_scalar (snd kv)) r"
  "flatten_items py_str m parent_key sep items = Inr res \<Longrightarrow>
     list_all (\<lambda>kv. is_scalar (snd kv)) items \<Longrightarrow> list_all (\<lambda>kv. is_scalar (snd kv)) res"
  "flatten_enum py_str xs i new_key sep items = Inr res \<Longrightarrow>
     list_all (\<lambda>kv. is_scalar (snd kv)) items \<Longrightarrow> list_all (\<lambda>kv. is_scalar (snd kv)) res"
proof (induction py_str d parent_key sep and py_str m parent_key sep items
         and py_str xs i new_key sep items
       arbitrary: r and res and res
       rule: flatten_dict_flatten_items_flatten_enum.induct)
  case (1 py_str m parent_key sep)
  then show ?case
    by (auto split: sum.splits intro: list_all_dict_of_items)
next
  case (4 py_str k v rest parent_key sep items)
  then show ?case
    by (cases v) (simp_all add: Let_def split: sum.splits if_splits)
next
  case (6 py_str item others i new_key sep items)
  then show ?case
    by (simp split: sum.splits)
qed simp_all

subsection \<open>Flat input\<close>

lemma dict_set_fresh: "k \<notin> fst ` set d \<Longrightarrow> dict_set k v d = d @ [(k, v)]"
  unfolding dict_set_def by (induction d) auto

lemma foldl_dict_set_distinct:
  "distinct (map fst (d @ its)) \<Longrightarrow> foldl (\<lambda>d (k, v). dict_set k v d) d its = d @ its"
proof (induction its arbitrary: d)
  case Nil
  show ?case by simp
next
  case (Cons a its)
  obtain k v where a: "a = (k, v)" by (cases a)
  from Cons.prems have fresh: "k \<notin> fst ` set d" and d: "distinct (map fst ((d @ [(k, v)]) @ its))"
    unfolding a by auto
  from Cons.IH [OF d] show ?case
    unfolding a by (simp add: dict_set_fresh [OF fresh])
qed

lemma dict_of_items_distinct: "distinct (map fst m) \<Longrightarrow> dict_of_items m = m"
  using foldl_dict_set_distinct [of "[]" m] by (simp add: dict_of_items_def)

lemma flatten_items_flat:
  "\<forall>kv \<in> set m. is_scalar (snd kv) \<Longrightarrow> flatten_items py_str m [] sep items = Inr (items @ m)"
proof (induction m arbitrary: items)
  case Nil
  show ?case by simp
next
  case (Cons a m)
  obtain k v where a: "a = (k, v)" by (cases a)
  from Cons.prems have "is_scalar v" and rest: "\<forall>kv \<in> set m. is_scalar (snd kv)"
    unfolding a by simp_all
  then show ?case
    unfolding a using Cons.IH [OF rest] by (cases v) simp_all
qed

subsection \<open>Sequences that start with a mapping\<close>

lemma flatten_error:
  "flatten_dict py_str d parent_key sep = Inl e \<Longrightarrow> e = AttributeError"
  "flatten_items py_str m parent_key sep items = Inl e \<Longrightarrow> e = AttributeError"
  "flatten_enum py_str xs i new_key sep items = Inl e \<Longrightarrow> e = AttributeError"
proof (induction py_str d parent_key sep and py_str m parent_key sep items
         and py_str xs i new_key sep items
       rule: flatten_dict_flatten_items_flatten_enum.induct)
  case (4 py_str k v rest parent_key sep items)
  then show ?case
    by (cases v) (auto simp: Let_def split: sum.splits if_splits)
qed (auto split: sum.splits)

lemma flatten_returns:
  "flatten_dict py_str d parent_key sep = Inr r \<Longrightarrow> isinstance_dict d"
  "flatten_items py_str m parent_key sep items = Inr res \<Longrightarrow>
     \<forall>kv \<in> set m. \<forall>xs. snd kv = JList xs \<and> xs \<noteq> [] \<and> isinstance_dict (hd xs)
        \<longrightarrow> list_all isinstance_dict xs"
  "flatten_enum py_str xs i new_key sep items = Inr res \<Longrightarrow> list_all isinstance_dict xs"
proof (induction py_str d parent_key sep and py_str m parent_key sep items
         and py_str xs i new_key sep items
       arbitrary: r and res and res
       rule: flatten_dict_flatten_items_flatten_enum.induct)
  case (4 py_str k v rest parent_key sep items)
  then show ?case
    by (cases v) (auto simp: Let_def split: sum.splits if_splits)
next
  case (6 py_str item others i new_key sep items)
  then show ?case
    by (auto split: sum.splits)
qed simp_all

lemma flatten_ragged:
  assumes "(k, JList xs) \<in> set m" and "xs \<noteq> []" and "isinstance_dict (hd xs)"
    and "\<not> list_all isinstance_dict xs"
  shows "flatten_dict py_str (JDict m) parent_key sep = Inl AttributeError"
proof (cases "flatten_items py_str m parent_key sep []")
  case (Inl e)
  with flatten_error(2) [OF Inl] show ?thesis by simp
next
  case (Inr res)
  from flatten_returns(2) [OF Inr] assms show ?thesis by fastforce
qed


section \<open>Properties of the response classifier\<close>

lemma text_html_no_json: "\<not> str_in ''json'' (lower ''text/html'')"
  by code_simp

lemma json_response_content_type:
  "lower (headers_get (resp_headers json_response) ''content-type'' []) = ''application/json; charset=utf-8''"
  unfolding json_response_def headers_get_def by code_simp

lemma json_response_url:
  "lower (resp_url json_response) = ''https://umpscorecards.com/api/umpires''"
  unfolding json_response_def by code_simp

lemma not_found_content_type:
  "lower (headers_get (resp_headers not_found_response) ''content-type'' []) = ''application/json''"
  unfolding not_found_response_def headers_get_def by code_simp

lemma handle_response_sc_policy:
  assumes "handle_response_sc response responses \<noteq> responses"
  shows "resp_status response = 200"
    and "str_in ''json'' (lower (headers_get (resp_headers response) ''content-type'' []))"
    and "list_ex (\<lambda>keyword. str_in keyword (lower (resp_url response))) [''api'', ''data'', ''json'']"
  using assms
  by (auto simp: handle_response_sc_def Let_def split: if_splits option.splits)

lemma handle_response_sc_rejects_404:
  "resp_status response = 404 \<Longrightarrow> handle_response_sc response responses = responses"
  by (simp add: handle_response_sc_def)

lemma handle_response_simple_captures_iff:
  "(handle_response_simple response responses_data \<noteq> responses_data) =
     (str_in ''json'' (lower (headers_get (resp_headers response) ''content-type'' []))
      \<and> resp_json response \<noteq> None)"
  by (auto simp: handle_response_simple_def split: option.splits)

lemma handle_response_rejects_html:
  assumes "headers_get (resp_headers response) ''content-type'' [] = ''text/html''"
  shows "handle_response_sc response responses = responses"
    and "handle_response_simple response responses_data = responses_data"
  using text_html_no_json
  by (simp_all add: handle_response_sc_def handle_response_simple_def assms Let_def)

lemma handle_response_examples:
  "handle_response_sc json_response [] \<noteq> []"
  "handle_response_sc html_response [] = []"
  "handle_response_simple html_response [] = []"
proof -
  show "handle_response_sc json_response [] \<noteq> []"
    unfolding handle_response_sc_def json_response_content_type json_response_url
    by (simp add: json_response_def)
  have html: "headers_get (resp_headers html_response) ''content-type'' [] = ''text/html''"
    by (simp add: html_response_def headers_get_def)
  from handle_response_rejects_html [OF html]
  show "handle_response_sc html_response [] = []" "handle_response_simple html_response [] = []"
    by simp_all
qed

section \<open>Properties of the record extractor\<close>

lemma process_items_dict:
  "process_items tag clock (JDict m # rest) (t, coll) =
     (case process_items tag clock rest (Suc t, coll @ [tag (clock t) m]) of
        (rest', st) \<Rightarrow> (JDict (tag (clock t) m) # rest', st))"
  by (simp add: Let_def)

lemma process_items_other:
  "\<not> isinstance_dict item \<Longrightarrow>
   process_items tag clock (item # rest) (t, coll) =
     (case process_items tag clock rest (t, coll) of (rest', st) \<Rightarrow> (item # rest', st))"
  by (cases item) simp_all

lemma dict_elements_other: "\<not> isinstance_dict x \<Longrightarrow> dict_elements (x # rest) = dict_elements rest"
  by (cases x) simp_all

lemma process_items_length:
  "process_items tag clock xs (t, coll) = (xs', st') \<Longrightarrow> length xs' = length xs"
proof (induction xs arbitrary: t coll xs' st')
  case Nil
  then show ?case by simp
next
  case (Cons item rest)
  show ?case
  proof (cases "isinstance_dict item")
    case True
    then obtain m where m: "item = JDict m" by (cases item) simp_all
    obtain rest' st where r:
      "process_items tag clock rest (Suc t, coll @ [tag (clock t) m]) = (rest', st)"
      by (cases "process_items tag clock rest (Suc t, coll @ [tag (clock t) m])")
    with Cons.prems have "xs' = JDict (tag (clock t) m) # rest'"
      unfolding m process_items_dict by simp
    with Cons.IH [OF r] show ?thesis by simp
  next
    case False
    obtain rest' st where r: "process_items tag clock rest (t, coll) = (rest', st)"
      by (cases "process_items tag clock rest (t, coll)")
    with Cons.prems have "xs' = item # rest'"
      unfolding process_items_other [OF False] by simp
    with Cons.IH [OF r] show ?thesis by simp
  qed
qed

lemma process_items_elements:
  "process_items tag clock xs (t, coll) = (xs', st') \<Longrightarrow>
     list_all2 (\<lambda>x x'. if isinstance_dict x
                        then (\<exists>m now. x = JDict m \<and> x' = JDict (tag now m))
                        else x' = x) xs xs'"
proof (induction xs arbitrary: t coll xs' st')
  case Nil
  then show ?case by simp
next
  case (Cons item rest)
  show ?case
  proof (cases "isinstance_dict item")
    case True
    then obtain m where m: "item = JDict m" by (cases item) simp_all
    obtain rest' st where r:
      "process_items tag clock rest (Suc t, coll @ [tag (clock t) m]) = (rest', st)"
      by (cases "process_items tag clock rest (Suc t, coll @ [tag (clock t) m])")
    with Cons.prems have "xs' = JDict (tag (clock t) m) # rest'"
      unfolding m process_items_dict by simp
    with Cons.IH [OF r] m show ?thesis by auto
  next
    case False
    obtain rest' st where r: "process_items tag clock rest (t, coll) = (rest', st)"
      by (cases "process_items tag clock rest (t, coll)")
    with Cons.prems have "xs' = item # rest'"
      unfolding process_items_other [OF False] by simp
    with Cons.IH [OF r] False show ?thesis by simp
  qed
qed

lemma process_items_collected:
  "process_items tag clock xs (t, coll) = (xs', t', coll') \<Longrightarrow>
     coll' = coll @ dict_elements xs' \<and> t' = t + length (dict_elements xs)
     \<and> dict_elements xs' = map (\<lambda>(k, m). tag (clock (t + k)) m) (enumerate 0 (dict_elements xs))"
proof (induction xs arbitrary: t coll xs' t' coll')
  case Nil
  then show ?case by simp
next
  case (Cons item rest)
  show ?case
  proof (cases "isinstance_dict item")
    case True
    then obtain m where m: "item = JDict m" by (cases item) simp_all
    obtain rest' st where r0:
      "process_items tag clock rest (Suc t, coll @ [tag (clock t) m]) = (rest', st)"
      by (cases "process_items tag clock rest (Suc t, coll @ [tag (clock t) m])")
    with Cons.prems have xs': "xs' = JDict (tag (clock t) m) # rest'" and st: "st = (t', coll')"
      unfolding m process_items_dict by simp_all
    from Cons.IH [OF r0 [unfolded st]] xs' m show ?thesis
      by (simp add: enumerate_Suc_eq comp_def case_prod_beta)
  next
    case False
    obtain rest' st where r0: "process_items tag clock rest (t, coll) = (rest', st)"
      by (cases "process_items tag clock rest (t, coll)")
    with Cons.prems have xs': "xs' = item # rest'" and st: "st = (t', coll')"
      unfolding process_items_other [OF False] by simp_all
    from Cons.IH [OF r0 [unfolded st]] xs' False show ?thesis
      by (simp add: dict_elements_other)
  qed
qed


lemma process_data_in_place:
  "process_data tag clock d (t, coll) = (d', t', coll') \<Longrightarrow>
     \<exists>records. coll' = coll @ records \<and> in_place_update tag d d' records"
proof (cases d)
  case (JList xs)
  assume run: "process_data tag clock d (t, coll) = (d', t', coll')"
  obtain xs' st where r: "process_items tag clock xs (t, coll) = (xs', st)"
    by (cases "process_items tag clock xs (t, coll)")
  with run JList have d': "d' = JList xs'" and st: "st = (t', coll')"
    by (simp_all add: process_data_def)
  from process_items_collected [OF r [unfolded st]] process_items_elements [OF r] d' JList
  show ?thesis
    by (auto simp: in_place_update_def)
qed (auto simp: process_data_def in_place_update_def Let_def)

lemma process_data_records:
  "process_data tag clock d (t, coll) = (d', t', coll') \<Longrightarrow>
     coll' = coll @ map (\<lambda>(k, m). tag (clock (t + k)) m) (enumerate 0 (mappings_of d))"
proof (cases d)
  case (JList xs)
  assume run: "process_data tag clock d (t, coll) = (d', t', coll')"
  obtain xs' st where r: "process_items tag clock xs (t, coll) = (xs', st)"
    by (cases "process_items tag clock xs (t, coll)")
  with run JList have st: "st = (t', coll')"
    by (simp_all add: process_data_def)
  from process_items_collected [OF r [unfolded st]] JList
  show ?thesis by simp
qed (auto simp: process_data_def Let_def)

lemma map_of_dict_set: "map_of (dict_set k v d) = (map_of d)(k \<mapsto> v)"
  by (simp add: dict_set_def update_conv')

lemma map_of_tag_sc:
  "map_of (tag_sc u src now m) =
     (map_of m)(''umpire_name'' \<mapsto> JStr u, ''scraped_at'' \<mapsto> JStr now, ''source_url'' \<mapsto> JStr src)"
  by (simp add: tag_sc_def map_of_dict_set)

lemma map_of_tag_simple:
  "map_of (tag_simple u now m) =
     (map_of m)(''umpire_name'' \<mapsto> JStr u, ''scraped_timestamp'' \<mapsto> JStr now)"
  by (simp add: tag_simple_def map_of_dict_set)

lemma example_run:
  "process_response_sc ''Pat Hoberg'' example_clock example_capture (0, []) =
     (example_capture\<lparr>data := JList (map JDict example_tagged @ [JStr ''not-a-map''])\<rparr>,
      2, example_tagged)"
  by (simp add: process_response_sc_def process_data_def tag_sc_def dict_set_def Let_def
        example_capture_def example_clock_def example_tagged_def)

section \<open>Properties of the date filter\<close>

lemma find_item_date_sc_resolved:
  "find_item_date_sc parse py_str item candidates =
     resolved_date (value_date_sc parse py_str) candidates item"
  by (induction candidates)
     (auto simp: resolved_date_def value_date_sc_def split: option.splits list.splits)

lemma find_item_date_simple_resolved:
  "find_item_date_simple strptime py_str item candidates =
     resolved_date (value_date_simple strptime py_str) candidates item"
  by (induction candidates)
     (auto simp: resolved_date_def value_date_simple_def split: option.splits list.splits)

lemma filter_loop_simple_filter:
  "filter_loop_simple strptime py_str start_dt end_dt items filtered_data =
     filtered_data @
     filter (\<lambda>item. case find_item_date_simple strptime py_str item date_fields_simple of
                      Some d \<Rightarrow> start_dt \<le> d \<and> d \<le> end_dt
                    | None \<Rightarrow> False) items"
  by (induction items arbitrary: filtered_data) (auto split: option.splits)

lemma filter_loop_sc_naive:
  "list_all (\<lambda>item. case find_item_date_sc parse py_str item date_fields_sc of
                       Some (Aware d) \<Rightarrow> False | _ \<Rightarrow> True) items \<Longrightarrow>
   filter_loop_sc parse py_str (Naive a) (Naive b) items filtered_data =
     Inr (filtered_data @
          filter (\<lambda>item. case find_item_date_sc parse py_str item date_fields_sc of
                           Some (Naive d) \<Rightarrow> a \<le> d \<and> d \<le> b
                         | _ \<Rightarrow> False) items)"
  by (induction items arbitrary: filtered_data) (auto split: option.splits datetime.splits)

lemma filter_loop_sc_aware:
  "item \<in> set items \<Longrightarrow> find_item_date_sc parse py_str item date_fields_sc = Some (Aware d) \<Longrightarrow>
   filter_loop_sc parse py_str (Naive a) end_dt items filtered_data = Inl TypeError"
proof (induction items arbitrary: filtered_data)
  case Nil
  then show ?case by simp
next
  case (Cons x items)
  show ?case
  proof (cases "find_item_date_sc parse py_str x date_fields_sc")
    case None
    with Cons show ?thesis by auto
  next
    case (Some dx)
    show ?thesis
    proof (cases dx)
      case (Aware c)
      with Some show ?thesis by simp
    next
      case (Naive c)
      with Some Cons.prems have rest: "item \<in> set items" by auto
      show ?thesis
      proof (cases end_dt)
        case (Naive e)
        with \<open>dx = Naive c\<close> Some Cons.IH [OF rest Cons.prems(2)] show ?thesis by simp
      next
        case (Aware e)
        with \<open>dx = Naive c\<close> Some Cons.IH [OF rest Cons.prems(2)] show ?thesis by simp
      qed
    qed
  qed
qed


lemma filter_simple_keeps_in_range:
  assumes "opt_truthy start_date \<or> opt_truthy end_date"
    and "parse_bound_simple strptime start_date civil_min = Some a"
    and "parse_bound_simple strptime end_date civil_max = Some b"
  shows "filter_by_date_range_simple strptime py_str data_list start_date end_date =
     filter (\<lambda>item. case resolved_date (value_date_simple strptime py_str) date_fields_simple item of
                      Some d \<Rightarrow> a \<le> d \<and> d \<le> b
                    | None \<Rightarrow> False) data_list"
  using assms
  by (simp add: filter_by_date_range_simple_def filter_loop_simple_filter
        find_item_date_simple_resolved)

lemma filter_sc_keeps_in_range:
  assumes "opt_truthy start_date \<or> opt_truthy end_date"
    and "parse_bound_sc parse start_date (Naive civil_min) = Some (Naive a)"
    and "parse_bound_sc parse end_date (Naive civil_max) = Some (Naive b)"
    and "list_all (\<lambda>item. case resolved_date (value_date_sc parse py_str) date_fields_sc item of
                       Some (Aware d) \<Rightarrow> False | _ \<Rightarrow> True) data_list"
  shows "filter_by_date_range_sc parse py_str data_list start_date end_date =
     Inr (filter (\<lambda>item. case resolved_date (value_date_sc parse py_str) date_fields_sc item of
                      Some (Naive d) \<Rightarrow> a \<le> d \<and> d \<le> b
                    | _ \<Rightarrow> False) data_list)"
proof -
  from assms(4) have "list_all (\<lambda>item. case find_item_date_sc parse py_str item date_fields_sc of
                       Some (Aware d) \<Rightarrow> False | _ \<Rightarrow> True) data_list"
    by (simp add: find_item_date_sc_resolved)
  from filter_loop_sc_naive [OF this, of a b "[]"] assms(1-3) show ?thesis
    by (simp add: filter_by_date_range_sc_def find_item_date_sc_resolved)
qed

lemma filter_simple_bound_parse_error_returns_input:
  assumes "bound = Some s" and "s \<noteq> []" and "strptime s ''%Y-%m-%d'' = None"
  shows "filter_by_date_range_simple strptime py_str data_list bound end_date = data_list"
    and "filter_by_date_range_simple strptime py_str data_list start_date bound = data_list"
  using assms
  by (auto simp: filter_by_date_range_simple_def parse_bound_simple_def split: option.splits)

lemma example_parse_values:
  "example_parse ''2024-01-01'' = Some (Naive (2024, 1, 1, 0, 0, 0, 0))"
  "example_parse ''2024-12-31'' = Some (Naive (2024, 12, 31, 0, 0, 0, 0))"
  "example_parse ''2023-12-31'' = Some (Naive (2023, 12, 31, 0, 0, 0, 0))"
  "example_parse ''2024-06-15'' = Some (Naive (2024, 6, 15, 0, 0, 0, 0))"
  "example_parse ''2024-06-15T12:00:00Z'' = Some (Aware (2024, 6, 15, 12, 0, 0, 0))"
  "example_parse ''not-a-date'' = None"
  by code_simp+

lemma example_strptime_values:
  "example_strptime ''2024-01-01'' ''%Y-%m-%d'' = Some (2024, 1, 1, 0, 0, 0, 0)"
  "example_strptime ''2024-12-31'' ''%Y-%m-%d'' = Some (2024, 12, 31, 0, 0, 0, 0)"
  "example_strptime ''2023-12-31'' ''%Y-%m-%d'' = Some (2023, 12, 31, 0, 0, 0, 0)"
  "example_strptime ''2024-06-15'' ''%Y-%m-%d'' = Some (2024, 6, 15, 0, 0, 0, 0)"
  "example_strptime ''not-a-date'' ''%Y-%m-%d'' = None"
  by code_simp+

subsection \<open>The examples of the specification\<close>

text \<open>
  With the bounds \<^verbatim>\<open>2024-01-01\<close> and \<^verbatim>\<open>2024-12-31\<close>, both scrapers drop the record dated
  \<^verbatim>\<open>2023-12-31\<close> and the undated record and keep the record dated \<^verbatim>\<open>2024-06-15\<close>.
\<close>

lemma example_resolved_sc:
  "resolved_date (value_date_sc example_parse example_str) date_fields_sc record_2023
     = Some (Naive (2023, 12, 31, 0, 0, 0, 0))"
  "resolved_date (value_date_sc example_parse example_str) date_fields_sc record_2024
     = Some (Naive (2024, 6, 15, 0, 0, 0, 0))"
  "resolved_date (value_date_sc example_parse example_str) date_fields_sc record_undated = None"
  "resolved_date (value_date_sc example_parse example_str) date_fields_sc record_utc
     = Some (Aware (2024, 6, 15, 12, 0, 0, 0))"
  unfolding find_item_date_sc_resolved [symmetric]
  by (simp_all add: date_fields_sc_def record_2023_def record_2024_def record_undated_def
        record_utc_def example_str_def example_parse_values)

lemma example_resolved_simple:
  "resolved_date (value_date_simple example_strptime example_str) date_fields_simple record_2023
     = Some (2023, 12, 31, 0, 0, 0, 0)"
  "resolved_date (value_date_simple example_strptime example_str) date_fields_simple record_2024
     = Some (2024, 6, 15, 0, 0, 0, 0)"
  "resolved_date (value_date_simple example_strptime example_str) date_fields_simple record_undated
     = None"
  unfolding find_item_date_simple_resolved [symmetric]
  by (simp_all add: date_fields_simple_def date_formats_def record_2023_def record_2024_def
        record_undated_def example_str_def example_strptime_values)

lemma example_bounds:
  "parse_bound_sc example_parse (Some ''2024-01-01'') (Naive civil_min) = Some (Naive (2024, 1, 1, 0, 0, 0, 0))"
  "parse_bound_sc example_parse (Some ''2024-12-31'') (Naive civil_max) = Some (Naive (2024, 12, 31, 0, 0, 0, 0))"
  "parse_bound_simple example_strptime (Some ''2024-01-01'') civil_min = Some (2024, 1, 1, 0, 0, 0, 0)"
  "parse_bound_simple example_strptime (Some ''2024-12-31'') civil_max = Some (2024, 12, 31, 0, 0, 0, 0)"
  by (simp_all add: parse_bound_sc_def parse_bound_simple_def example_parse_values
        example_strptime_values)

lemma example_filter_simple:
  "filter_by_date_range_simple example_strptime example_str
     [record_2023, record_2024, record_undated] (Some ''2024-01-01'') (Some ''2024-12-31'')
   = [record_2024]"
  by (subst filter_simple_keeps_in_range [OF _ example_bounds(3) example_bounds(4)])
     (simp_all add: example_resolved_simple)

lemma example_filter_sc:
  "filter_by_date_range_sc example_parse example_str
     [record_2023, record_2024, record_undated] (Some ''2024-01-01'') (Some ''2024-12-31'')
   = Inr [record_2024]"
  by (subst filter_sc_keeps_in_range [OF _ example_bounds(1) example_bounds(2)])
     (simp_all add: example_resolved_sc)

section \<open>Claims about the flattener\<close>




text \<open>
  C8. A dictionary whose values are all scalars or null is returned by the flattener as
  it is, key for key and value for value, in the same order.
\<close>

theorem flatten_dict_flat_identity:
  "distinct (map fst row) \<Longrightarrow> \<forall>kv \<in> set row. is_scalar (snd kv) \<Longrightarrow>
     flatten_dict py_str (JDict row) [] sep = Inr row"
  by (simp add: flatten_items_flat dict_of_items_distinct)

theorem flatten_dict_flat_identity_witness:
  "distinct (map fst [(''id'', JInt 7), (''name'', JStr ''Pat Hoberg''), (''note'', JNull)])
   \<and> list_all (\<lambda>kv. is_scalar (snd kv))
         [(''id'', JInt 7), (''name'', JStr ''Pat Hoberg''), (''note'', JNull)]
   \<and> flatten_dict (\<lambda>v. []) (JDict [(''id'', JInt 7), (''name'', JStr ''Pat Hoberg''), (''note'', JNull)])
        [] ''_'' = Inr [(''id'', JInt 7), (''name'', JStr ''Pat Hoberg''), (''note'', JNull)]"
proof -
  let ?row = "[(''id'', JInt 7), (''name'', JStr ''Pat Hoberg''), (''note'', JNull)]"
  have h1: "distinct (map fst ?row)" by simp
  have h2: "\<forall>kv \<in> set ?row. is_scalar (snd kv)" by simp
  have h3: "list_all (\<lambda>kv. is_scalar (snd kv)) ?row" by simp
  from flatten_dict_flat_identity [OF h1 h2, of "\<lambda>v. []" "''_''"] h1 h3 show ?thesis by blast
qed

text \<open>
  C9. Whenever the flattener returns, no value of the returned row is a mapping or a
  sequence.
\<close>

theorem flatten_dict_no_containers:
  "flatten_dict py_str record parent_key sep = Inr row \<Longrightarrow>
     \<forall>kv \<in> set row. \<not> isinstance_dict (snd kv) \<and> \<not> isinstance_list (snd kv)"
proof
  fix kv assume row: "flatten_dict py_str record parent_key sep = Inr row" and kv: "kv \<in> set row"
  from flatten_values_scalar(1) [OF row] kv have "is_scalar (snd kv)"
    by (simp add: list_all_iff)
  then show "\<not> isinstance_dict (snd kv) \<and> \<not> isinstance_list (snd kv)"
    by (cases "snd kv") simp_all
qed

theorem flatten_dict_no_containers_witness:
  "flatten_dict (\<lambda>v. ''[1, 2]'')
       (JDict [(''a'', JDict [(''b'', JList [JInt 1, JInt 2])]), (''c'', JList [JDict [(''x'', JNull)]])])
       [] ''_''
     = Inr [(''a_b'', JStr ''[1, 2]''), (''c_0_x'', JNull)]
   \<and> list_all (\<lambda>kv. \<not> isinstance_dict (snd kv) \<and> \<not> isinstance_list (snd kv))
         [(''a_b'', JStr ''[1, 2]''), (''c_0_x'', JNull)]"
proof -
  have s0: "str_nat 0 = ''0''" by code_simp
  have run: "flatten_dict (\<lambda>v. ''[1, 2]'')
       (JDict [(''a'', JDict [(''b'', JList [JInt 1, JInt 2])]), (''c'', JList [JDict [(''x'', JNull)]])])
       [] ''_''
     = Inr [(''a_b'', JStr ''[1, 2]''), (''c_0_x'', JNull)]"
    by (simp add: dict_of_items_def dict_set_def s0)
  from flatten_dict_no_containers [OF run] run show ?thesis
    unfolding list_all_iff by blast
qed

text \<open>
  C10. The flattener looks at the first element of a sequence only: when a sequence held
  by a record starts with a mapping and holds an element that is not a mapping, every
  element is flattened as a mapping and the call raises \<^verbatim>\<open>AttributeError\<close>.
\<close>

theorem flatten_dict_ragged_sequence_raises:
  "(k, JList xs) \<in> set m \<Longrightarrow> xs \<noteq> [] \<Longrightarrow> isinstance_dict (hd xs) \<Longrightarrow>
   \<not> list_all isinstance_dict xs \<Longrightarrow>
     flatten_dict py_str (JDict m) parent_key sep = Inl AttributeError"
  by (rule flatten_ragged)

theorem flatten_dict_ragged_sequence_raises_witness:
  "(''a'', JList [JDict [(''x'', JInt 1)], JStr ''not-a-map'']) \<in>
       set [(''id'', JInt 3), (''a'', JList [JDict [(''x'', JInt 1)], JStr ''not-a-map''])]
   \<and> [JDict [(''x'', JInt 1)], JStr ''not-a-map''] \<noteq> []
   \<and> isinstance_dict (hd [JDict [(''x'', JInt 1)], JStr ''not-a-map''])
   \<and> \<not> list_all isinstance_dict [JDict [(''x'', JInt 1)], JStr ''not-a-map'']
   \<and> flatten_dict (\<lambda>v. []) (JDict [(''id'', JInt 3), (''a'', JList [JDict [(''x'', JInt 1)], JStr ''not-a-map''])])
        [] ''_'' = Inl AttributeError"
proof -
  let ?xs = "[JDict [(''x'', JInt 1)], JStr ''not-a-map'']"
  let ?m = "[(''id'', JInt 3), (''a'', JList ?xs)]"
  have h1: "(''a'', JList ?xs) \<in> set ?m" by simp
  have h2: "?xs \<noteq> []" by simp
  have h3: "isinstance_dict (hd ?xs)" by simp
  have h4: "\<not> list_all isinstance_dict ?xs" by simp
  from flatten_dict_ragged_sequence_raises [OF h1 h2 h3 h4, of "\<lambda>v. []" "[]" "''_''"] h1 h2 h3 h4
  show ?thesis by blast
qed

section \<open>Claims about the response classifier\<close>

text \<open>
  C1 fails on the simple scraper. Its handler tests the content type only and never reads
  the status: it captures a response with status 404 whose content type is
  \<^verbatim>\<open>application/json\<close> and whose URL contains \<^verbatim>\<open>/api/\<close>. The handler of the scorecard scraper
  tests the status and does not capture the same response.
\<close>

theorem handle_response_simple_captures_404:
  "resp_status not_found_response = 404
   \<and> str_in ''/api/'' (resp_url not_found_response)
   \<and> handle_response_simple not_found_response [] =
       [\<lparr>url = ''https://umpscorecards.com/api/umpires'',
         data = JDict [(''error'', JStr ''not found'')]\<rparr>]
   \<and> handle_response_sc not_found_response [] = []"
proof (intro conjI)
  show "resp_status not_found_response = 404" by (simp add: not_found_response_def)
  show "str_in ''/api/'' (resp_url not_found_response)"
    by (simp add: not_found_response_def)
  show "handle_response_simple not_found_response [] =
       [\<lparr>url = ''https://umpscorecards.com/api/umpires'',
         data = JDict [(''error'', JStr ''not found'')]\<rparr>]"
    unfolding handle_response_simple_def not_found_content_type
    by (simp add: not_found_response_def)
  show "handle_response_sc not_found_response [] = []"
    by (rule handle_response_sc_rejects_404) (simp add: not_found_response_def)
qed

section \<open>Claims about the record extractor\<close>

text \<open>
  C2, as the code has it. Extraction updates the captured body in place: every mapping
  element of a sequence body, or a mapping body itself, receives the provenance fields,
  and the records returned are exactly these updated mappings; elements that are not
  mappings stay as they are, in their positions, and a body that is neither a sequence
  nor a mapping is unchanged and yields no record. The URL of the captured response is
  unchanged.
\<close>

theorem extractor_updates_body_in_place:
  "(process_response_sc umpire_name clock response (t, coll) = (response', t', coll') \<longrightarrow>
      url response' = url response \<and>
      (\<exists>records. coll' = coll @ records \<and>
         in_place_update (tag_sc umpire_name (url response)) (data response) (data response') records))
   \<and> (process_response_simple umpire_name clock capture (t, coll) = (capture', t', coll') \<longrightarrow>
      url capture' = url capture \<and>
      (\<exists>records. coll' = coll @ records \<and>
         in_place_update (tag_simple umpire_name) (data capture) (data capture') records))"
proof (intro conjI impI)
  assume run: "process_response_sc umpire_name clock response (t, coll) = (response', t', coll')"
  obtain d st where r: "process_data (tag_sc umpire_name (url response)) clock (data response) (t, coll) = (d, st)"
    by (cases "process_data (tag_sc umpire_name (url response)) clock (data response) (t, coll)")
  with run have r': "response' = response\<lparr>data := d\<rparr>" and st: "st = (t', coll')"
    by (simp_all add: process_response_sc_def)
  from r' show "url response' = url response" by simp
  from process_data_in_place [OF r [unfolded st]] r'
  show "\<exists>records. coll' = coll @ records \<and>
         in_place_update (tag_sc umpire_name (url response)) (data response) (data response') records"
    by simp
next
  assume run: "process_response_simple umpire_name clock capture (t, coll) = (capture', t', coll')"
  obtain d st where r: "process_data (tag_simple umpire_name) clock (data capture) (t, coll) = (d, st)"
    by (cases "process_data (tag_simple umpire_name) clock (data capture) (t, coll)")
  with run have r': "capture' = capture\<lparr>data := d\<rparr>" and st: "st = (t', coll')"
    by (simp_all add: process_response_simple_def)
  from r' show "url capture' = url capture" by simp
  from process_data_in_place [OF r [unfolded st]] r'
  show "\<exists>records. coll' = coll @ records \<and>
         in_place_update (tag_simple umpire_name) (data capture) (data capture') records"
    by simp
qed

text \<open>
  C2 as stated fails: after extraction the body of a captured response that holds one
  mapping differs from the body before.
\<close>

theorem extractor_mutates_body_counterexample:
  "data (fst (process_response_sc ''Pat Hoberg'' (\<lambda>n. ''2025-09-01T12:00:00'')
        \<lparr>url = ''https://umpscorecards.com/api/games'',
         data = JList [JDict [(''id'', JInt 1)]], status = 200, headers = []\<rparr> (0, [])))
   \<noteq> JList [JDict [(''id'', JInt 1)]]"
  by (simp add: process_response_sc_def process_data_def tag_sc_def dict_set_def Let_def)


theorem extractor_updates_body_in_place_witness:
  "process_response_sc ''Pat Hoberg'' example_clock example_capture (0, []) =
     (example_capture\<lparr>data := JList (map JDict example_tagged @ [JStr ''not-a-map''])\<rparr>,
      2, example_tagged)
   \<and> (\<exists>records. example_tagged = [] @ records \<and>
         in_place_update (tag_sc ''Pat Hoberg'' (url example_capture)) (data example_capture)
           (data (example_capture\<lparr>data := JList (map JDict example_tagged @ [JStr ''not-a-map''])\<rparr>))
           records)"
  using extractor_updates_body_in_place [of "''Pat Hoberg''" example_clock example_capture 0 "[]"
      "example_capture\<lparr>data := JList (map JDict example_tagged @ [JStr ''not-a-map''])\<rparr>"
      2 example_tagged] example_run
  by blast

text \<open>
  C5, as the code has it. The extractor emits one record for each mapping element of a
  sequence body, in order, skipping the other elements; one record for a mapping body;
  none for any other body. A record is the mapping with the umpire name, the scrape time
  and (in the scorecard scraper) the source URL stored in it, the other keys unchanged.
  The scrape time of the \<open>k\<close>-th record is the \<open>k\<close>-th reading of the clock taken during
  the extraction. The body of the specification yields exactly two records.
\<close>

theorem extractor_emits_records:
  "(process_response_sc umpire_name clock response (t, coll) = (response', t', coll') \<longrightarrow>
      coll' = coll @ map (\<lambda>(k, m). tag_sc umpire_name (url response) (clock (t + k)) m)
                       (enumerate 0 (mappings_of (data response))))
   \<and> (process_response_simple umpire_name clock capture (t, coll) = (capture', t', coll') \<longrightarrow>
      coll' = coll @ map (\<lambda>(k, m). tag_simple umpire_name (clock (t + k)) m)
                       (enumerate 0 (mappings_of (data capture))))
   \<and> map_of (tag_sc umpire_name source now m) =
       (map_of m)(''umpire_name'' \<mapsto> JStr umpire_name, ''scraped_at'' \<mapsto> JStr now,
                  ''source_url'' \<mapsto> JStr source)
   \<and> map_of (tag_simple umpire_name now m) =
       (map_of m)(''umpire_name'' \<mapsto> JStr umpire_name, ''scraped_timestamp'' \<mapsto> JStr now)
   \<and> mappings_of (JList [JDict [(''id'', JInt 1)], JDict [(''id'', JInt 2)], JStr ''not-a-map''])
       = [[(''id'', JInt 1)], [(''id'', JInt 2)]]"
proof (intro conjI impI)
  assume run: "process_response_sc umpire_name clock response (t, coll) = (response', t', coll')"
  obtain d st where r: "process_data (tag_sc umpire_name (url response)) clock (data response) (t, coll) = (d, st)"
    by (cases "process_data (tag_sc umpire_name (url response)) clock (data response) (t, coll)")
  with run have st: "st = (t', coll')"
    by (simp_all add: process_response_sc_def)
  from process_data_records [OF r [unfolded st]]
  show "coll' = coll @ map (\<lambda>(k, m). tag_sc umpire_name (url response) (clock (t + k)) m)
                       (enumerate 0 (mappings_of (data response)))" .
next
  assume run: "process_response_simple umpire_name clock capture (t, coll) = (capture', t', coll')"
  obtain d st where r: "process_data (tag_simple umpire_name) clock (data capture) (t, coll) = (d, st)"
    by (cases "process_data (tag_simple umpire_name) clock (data capture) (t, coll)")
  with run have st: "st = (t', coll')"
    by (simp_all add: process_response_simple_def)
  from process_data_records [OF r [unfolded st]]
  show "coll' = coll @ map (\<lambda>(k, m). tag_simple umpire_name (clock (t + k)) m)
                       (enumerate 0 (mappings_of (data capture)))" .
qed (simp_all add: map_of_tag_sc map_of_tag_simple)

theorem extractor_emits_records_witness:
  "process_response_sc ''Pat Hoberg'' example_clock example_capture (0, []) =
     (example_capture\<lparr>data := JList (map JDict example_tagged @ [JStr ''not-a-map''])\<rparr>,
      2, example_tagged)
   \<and> example_tagged = [] @ map (\<lambda>(k, m). tag_sc ''Pat Hoberg'' (url example_capture) (example_clock (0 + k)) m)
                       (enumerate 0 (mappings_of (data example_capture)))
   \<and> length example_tagged = 2"
proof -
  from extractor_emits_records [of "''Pat Hoberg''" example_clock example_capture 0 "[]"
      "example_capture\<lparr>data := JList (map JDict example_tagged @ [JStr ''not-a-map''])\<rparr>"
      2 example_tagged] example_run
  have "example_tagged = [] @ map (\<lambda>(k, m). tag_sc ''Pat Hoberg'' (url example_capture) (example_clock (0 + k)) m)
                       (enumerate 0 (mappings_of (data example_capture)))"
    by blast
  moreover have "length example_tagged = 2" by (simp add: example_tagged_def)
  ultimately show ?thesis using example_run by blast
qed

text \<open>
  C5 as stated fails in its last part: the two records of that body carry the same umpire
  name and source URL, but each carries the reading of the clock taken when it was tagged,
  and the two readings differ when the clock has advanced in between.
\<close>

theorem extractor_timestamps_differ_counterexample:
  "snd (snd (process_response_sc ''Pat Hoberg'' example_clock example_capture (0, []))) = example_tagged
   \<and> length example_tagged = 2
   \<and> map_of (example_tagged ! 0) ''scraped_at'' \<noteq> map_of (example_tagged ! 1) ''scraped_at''"
  by (simp add: example_run) (simp add: example_tagged_def)

section \<open>Claims about the date filter\<close>

text \<open>
  C7. Called with neither a start nor an end bound (\<^verbatim>\<open>None\<close> or the empty string), the date
  filter of either scraper returns the input list itself: the same records in the same
  order.
\<close>

theorem filter_no_bounds_identity:
  "filter_by_date_range_simple strptime py_str data_list None None = data_list
   \<and> filter_by_date_range_simple strptime py_str data_list (Some []) None = data_list
   \<and> filter_by_date_range_simple strptime py_str data_list None (Some []) = data_list
   \<and> filter_by_date_range_simple strptime py_str data_list (Some []) (Some []) = data_list
   \<and> filter_by_date_range_sc parse py_str data_list None None = Inr data_list
   \<and> filter_by_date_range_sc parse py_str data_list (Some []) None = Inr data_list
   \<and> filter_by_date_range_sc parse py_str data_list None (Some []) = Inr data_list
   \<and> filter_by_date_range_sc parse py_str data_list (Some []) (Some []) = Inr data_list"
  by (simp add: filter_by_date_range_simple_def filter_by_date_range_sc_def)

text \<open>
  C3 fails on the scorecard scraper. Its filter parses the bounds outside any handler: when
  the start or the end bound is supplied and does not parse, the call ends with the
  parser's exception instead of returning the input list. (The simple scraper catches the
  error and returns the input list, lemma \<open>filter_simple_bound_parse_error_returns_input\<close>.)
\<close>

theorem filter_sc_bound_parse_error_raises:
  assumes "bound = Some s" and "s \<noteq> []" and "parse s = None"
  shows "filter_by_date_range_sc parse py_str data_list bound end_date = Inl ParserError
    \<and> filter_by_date_range_sc parse py_str data_list start_date bound = Inl ParserError"
  using assms
  by (auto simp: filter_by_date_range_sc_def parse_bound_sc_def split: option.splits)

theorem filter_sc_bound_parse_error_raises_witness:
  "''not-a-date'' \<noteq> [] \<and> example_parse ''not-a-date'' = None
   \<and> filter_by_date_range_sc example_parse example_str [record_2023, record_2024]
        (Some ''not-a-date'') None = Inl ParserError
   \<and> filter_by_date_range_sc example_parse example_str [record_2023, record_2024]
        (Some ''2024-01-01'') (Some ''not-a-date'') = Inl ParserError
   \<and> filter_by_date_range_simple example_strptime example_str [record_2023, record_2024]
        (Some ''not-a-date'') None = [record_2023, record_2024]"
proof -
  have h0: "Some ''not-a-date'' = Some ''not-a-date''" by simp
  have h: "''not-a-date'' \<noteq> []" by simp
  note raises = filter_sc_bound_parse_error_raises
    [where bound = "Some ''not-a-date''" and s = "''not-a-date''" and parse = example_parse
       and py_str = example_str and data_list = "[record_2023, record_2024]"
       and end_date = None and start_date = "Some ''2024-01-01''",
     OF h0 h example_parse_values(6)]
  note returns = filter_simple_bound_parse_error_returns_input(1)
    [where bound = "Some ''not-a-date''" and s = "''not-a-date''" and strptime = example_strptime
       and py_str = example_str and data_list = "[record_2023, record_2024]" and end_date = None,
     OF h0 h example_strptime_values(5)]
  from raises returns h example_parse_values(6) show ?thesis by blast
qed

text \<open>
  C6 fails on the scorecard scraper. When the bounds are naive datetimes and the date that
  some record of the list resolves to is aware of its time zone, the comparison with the
  start bound raises \<^verbatim>\<open>TypeError\<close> and the call returns no list, whatever the other records
  are. (On naive dates the scorecard scraper keeps exactly the records whose resolved date
  lies between the bounds, and the simple scraper always does: lemmas
  \<open>filter_sc_keeps_in_range\<close> and \<open>filter_simple_keeps_in_range\<close>.)
\<close>

theorem filter_sc_aware_date_raises:
  assumes "opt_truthy start_date \<or> opt_truthy end_date"
    and "parse_bound_sc parse start_date (Naive civil_min) = Some (Naive a)"
    and "parse_bound_sc parse end_date (Naive civil_max) = Some end_dt"
    and "item \<in> set data_list"
    and "resolved_date (value_date_sc parse py_str) date_fields_sc item = Some (Aware d)"
  shows "filter_by_date_range_sc parse py_str data_list start_date end_date = Inl TypeError"
proof -
  from assms(5) have "find_item_date_sc parse py_str item date_fields_sc = Some (Aware d)"
    by (simp add: find_item_date_sc_resolved)
  from filter_loop_sc_aware [OF assms(4) this] assms(1-3) show ?thesis
    by (simp add: filter_by_date_range_sc_def)
qed

theorem filter_sc_aware_date_raises_witness:
  "opt_truthy (Some ''2024-01-01'')
   \<and> parse_bound_sc example_parse (Some ''2024-01-01'') (Naive civil_min) = Some (Naive (2024, 1, 1, 0, 0, 0, 0))
   \<and> parse_bound_sc example_parse (Some ''2024-12-31'') (Naive civil_max) = Some (Naive (2024, 12, 31, 0, 0, 0, 0))
   \<and> resolved_date (value_date_sc example_parse example_str) date_fields_sc record_2024
       = Some (Naive (2024, 6, 15, 0, 0, 0, 0))
   \<and> resolved_date (value_date_sc example_parse example_str) date_fields_sc record_utc
       = Some (Aware (2024, 6, 15, 12, 0, 0, 0))
   \<and> filter_by_date_range_sc example_parse example_str [record_2024, record_utc]
        (Some ''2024-01-01'') (Some ''2024-12-31'') = Inl TypeError"
proof -
  have h1: "opt_truthy (Some ''2024-01-01'') \<or> opt_truthy (Some ''2024-12-31'')" by simp
  have h4: "record_utc \<in> set [record_2024, record_utc]" by simp
  from filter_sc_aware_date_raises [OF h1 example_bounds(1) example_bounds(2) h4 example_resolved_sc(4)]
  show ?thesis
    using example_bounds(1,2) example_resolved_sc(2,4) by simp
qed

end
